theory Spec2Isabelle
  imports Complex_Main "HOL-Library.Word"
begin

section \<open>Request data\<close>

text \<open>
  The handlers of \<^verbatim>\<open>posts.ctrl.js\<close> receive a Koa context and talk to three libraries:
  Joi (validation of the request body), mongoose (the \<^verbatim>\<open>Post\<close> model and its queries)
  and Koa itself (status, body and headers of the response). The handlers are embedded
  as functions from a context and a store to a result and a store; the library calls
  they make are embedded next to them, following the documented behaviour of the
  libraries (Joi from version 16 on, since the source uses \<^verbatim>\<open>schema.validate\<close>).

  A request body is a parsed JSON value, as the body parser leaves it in
  \<^verbatim>\<open>ctx.request.body\<close>. JavaScript strings are lists of characters, and \<^verbatim>\<open>s.length\<close> is the
  length of the list. Numbers in a body play no role beyond not being strings, so they
  are integers here. An object is the list of its properties, each key once; a lookup
  takes the first entry of a key.
\<close>

datatype json =
    JNull
  | JBool bool
  | JNum int
  | JStr string
  | JArr "json list"
  | JObj "(string \<times> json) list"

text \<open>Property access \<^verbatim>\<open>v.k\<close> on a body: \<open>None\<close> is JavaScript's \<^verbatim>\<open>undefined\<close>.\<close>

fun field :: "string \<Rightarrow> json \<Rightarrow> json option" where
  "field k (JObj kvs) = map_of kvs k"
| "field k _ = None"

subsection \<open>Joi schemas\<close>

text \<open>
  The schemas are written as in the source: \<^verbatim>\<open>Joi.string().required()\<close> is
  \<open>required Joi_string\<close>, \<^verbatim>\<open>Joi.array().items(s)\<close> is \<open>Joi_array_items s\<close> and
  \<^verbatim>\<open>Joi.object().keys({k: s, ...})\<close> is \<open>Joi_object_keys [(k, s), ...]\<close>.
\<close>

datatype joi =
    Joi_string
  | Joi_array_items joi
  | Joi_object_keys "(string \<times> joi) list"
  | required joi

datatype seg = Key string | Idx nat

datatype joi_code =
    any_required
  | string_base
  | string_empty
  | array_base
  | object_base
  | object_unknown

text \<open>The \<^verbatim>\<open>error\<close> member of a validation result: the code and the path of the first failure.\<close>

datatype joi_error = ValidationError joi_code "seg list"

text \<open>
  \<^verbatim>\<open>schema.validate(value)\<close> with Joi's default preferences: the first error ends the
  validation (\<^verbatim>\<open>abortEarly\<close>), \<^verbatim>\<open>undefined\<close> is accepted unless the schema is required, a
  string schema accepts strings only and not the empty string, an array schema accepts
  arrays only and validates each item, an object schema accepts objects only, validates
  its keys in the order they were declared and then rejects a key it does not know
  (\<^verbatim>\<open>allowUnknown\<close> is off). The result is the error, \<open>None\<close> when there is none.
\<close>

fun validate_at :: "joi \<Rightarrow> seg list \<Rightarrow> json option \<Rightarrow> joi_error option"
and validate_items :: "joi \<Rightarrow> seg list \<Rightarrow> nat \<Rightarrow> json list \<Rightarrow> joi_error option"
and validate_keys :: "(string \<times> joi) list \<Rightarrow> seg list \<Rightarrow> (string \<times> json) list \<Rightarrow> joi_error option"
where
  "validate_at (required s) p None = Some (ValidationError any_required p)"
| "validate_at (required s) p (Some v) = validate_at s p (Some v)"
| "validate_at Joi_string p None = None"
| "validate_at Joi_string p (Some (JStr s)) =
     (if s = [] then Some (ValidationError string_empty p) else None)"
| "validate_at Joi_string p (Some _) = Some (ValidationError string_base p)"
| "validate_at (Joi_array_items s) p None = None"
| "validate_at (Joi_array_items s) p (Some (JArr xs)) = validate_items s p 0 xs"
| "validate_at (Joi_array_items s) p (Some _) = Some (ValidationError array_base p)"
| "validate_at (Joi_object_keys ks) p None = None"
| "validate_at (Joi_object_keys ks) p (Some (JObj kvs)) =
     (case validate_keys ks p kvs of
        Some e \<Rightarrow> Some e
      | None \<Rightarrow>
         (case filter (\<lambda>kv. fst kv \<notin> set (map fst ks)) kvs of
            [] \<Rightarrow> None
          | kv # _ \<Rightarrow> Some (ValidationError object_unknown (p @ [Key (fst kv)]))))"
| "validate_at (Joi_object_keys ks) p (Some _) = Some (ValidationError object_base p)"
| "validate_items s p i [] = None"
| "validate_items s p i (x # xs) =
     (case validate_at s (p @ [Idx i]) (Some x) of
        Some e \<Rightarrow> Some e
      | None \<Rightarrow> validate_items s p (Suc i) xs)"
| "validate_keys [] p kvs = None"
| "validate_keys (ks # rest) p kvs =
     (case validate_at (snd ks) (p @ [Key (fst ks)]) (map_of kvs (fst ks)) of
        Some e \<Rightarrow> Some e
      | None \<Rightarrow> validate_keys rest p kvs)"

definition validate :: "joi \<Rightarrow> json \<Rightarrow> joi_error option" where
  "validate s v = validate_at s [] (Some v)"

section \<open>The Post model\<close>

text \<open>
  A mongoose \<^verbatim>\<open>ObjectId\<close> is a value of 12 bytes. \<^verbatim>\<open>ObjectId.isValid\<close> accepts, among
  strings, those of 24 hexadecimal digits and those of 12 characters; casting a string
  to an \<^verbatim>\<open>ObjectId\<close> succeeds on the same strings, reading the former as hexadecimal
  digits and the latter as the 12 bytes themselves. \<open>toHexString\<close> is the rendering of an
  id in a response.
\<close>

type_synonym ObjectId = "96 word"

definition is_hex :: "char \<Rightarrow> bool" where
  "is_hex c \<longleftrightarrow> c \<in> set ''0123456789abcdefABCDEF''"

definition hex_val :: "char \<Rightarrow> nat" where
  "hex_val c =
     (let n = of_char c in
      if 48 \<le> n \<and> n \<le> 57 then n - 48
      else if 97 \<le> n \<and> n \<le> 102 then n - 87
      else n - 55)"

definition hex_char :: "nat \<Rightarrow> char" where
  "hex_char n = ''0123456789abcdef'' ! n"

fun hex_digits :: "nat \<Rightarrow> nat \<Rightarrow> string" where
  "hex_digits 0 v = []"
| "hex_digits (Suc k) v = hex_digits k (v div 16) @ [hex_char (v mod 16)]"

definition ObjectId_isValid :: "string \<Rightarrow> bool" where
  "ObjectId_isValid s \<longleftrightarrow> length s = 12 \<or> (length s = 24 \<and> list_all is_hex s)"

definition ObjectId_cast :: "string \<Rightarrow> ObjectId option" where
  "ObjectId_cast s =
     (if length s = 24 \<and> list_all is_hex s
        then Some (foldl (\<lambda>a c. a * 16 + of_nat (hex_val c)) 0 s)
      else if length s = 12
        then Some (foldl (\<lambda>a c. a * 256 + of_char c) 0 s)
      else None)"

definition toHexString :: "ObjectId \<Rightarrow> string" where
  "toHexString w = hex_digits 24 (unat w)"

text \<open>
  A document of the \<^verbatim>\<open>Post\<close> model (\<^verbatim>\<open>models/post.js\<close>): the fields of \<^verbatim>\<open>PostSchema\<close>,
  with the name \<^verbatim>\<open>publishedData\<close> the schema gives to the date, and the \<^verbatim>\<open>_id\<close> every
  document has, here \<open>oid\<close>. A date is a number of milliseconds.
\<close>

record post =
  oid :: ObjectId
  title :: string
  body :: string
  tags :: "string list"
  publishedData :: nat

text \<open>
  What the process supplies when \<^verbatim>\<open>new Post(...)\<close> builds a document: the id that
  \<^verbatim>\<open>new ObjectId()\<close> generates and the value of \<^verbatim>\<open>Date.now\<close>.
\<close>

record env =
  fresh_id :: ObjectId
  now :: nat

fun as_string :: "json option \<Rightarrow> string option" where
  "as_string (Some (JStr s)) = Some s"
| "as_string _ = None"

fun as_strings :: "json list \<Rightarrow> string list option" where
  "as_strings [] = Some []"
| "as_strings (x # xs) =
     (case as_string (Some x) of
        None \<Rightarrow> None
      | Some s \<Rightarrow> (case as_strings xs of None \<Rightarrow> None | Some ss \<Rightarrow> Some (s # ss)))"

fun as_string_array :: "json option \<Rightarrow> string list option" where
  "as_string_array (Some (JArr xs)) = as_strings xs"
| "as_string_array _ = None"

text \<open>
  \<^verbatim>\<open>new Post({ title, body, tags })\<close> on the three fields of a body. The handler builds a
  document only from a body that passed validation, where the three are strings and an
  array of strings; on any other value the result is \<open>None\<close>, for the cast error of
  mongoose.
\<close>

definition new_Post :: "env \<Rightarrow> json \<Rightarrow> post option" where
  "new_Post e b =
     (case as_string (field ''title'' b) of
        None \<Rightarrow> None
      | Some t \<Rightarrow>
         (case as_string (field ''body'' b) of
            None \<Rightarrow> None
          | Some bd \<Rightarrow>
             (case as_string_array (field ''tags'' b) of
                None \<Rightarrow> None
              | Some tg \<Rightarrow>
                 Some \<lparr>oid = fresh_id e, title = t, body = bd, tags = tg,
                       publishedData = now e\<rparr>)))"

subsection \<open>JavaScript numbers of the list handler\<close>

text \<open>
  \<^verbatim>\<open>parseInt\<close> yields an integer or \<^verbatim>\<open>NaN\<close>; every comparison with \<^verbatim>\<open>NaN\<close> is false and
  arithmetic on \<^verbatim>\<open>NaN\<close> gives \<^verbatim>\<open>NaN\<close>. Integers are exact here; JavaScript rounds
  them to a double above \<open>2 ^ 53\<close>, a page number no collection reaches.
\<close>

datatype jsnum = NaN | Num int

fun js_lt :: "jsnum \<Rightarrow> jsnum \<Rightarrow> bool" where
  "js_lt (Num a) (Num b) = (a < b)"
| "js_lt _ _ = False"

fun js_sub :: "jsnum \<Rightarrow> jsnum \<Rightarrow> jsnum" where
  "js_sub (Num a) (Num b) = Num (a - b)"
| "js_sub _ _ = NaN"

fun js_mul :: "jsnum \<Rightarrow> jsnum \<Rightarrow> jsnum" where
  "js_mul (Num a) (Num b) = Num (a * b)"
| "js_mul _ _ = NaN"

definition is_space :: "char \<Rightarrow> bool" where
  "is_space c \<longleftrightarrow> of_char c \<in> {9, 10, 11, 12, 13, 32, 160 :: nat}"

definition is_digit :: "char \<Rightarrow> bool" where
  "is_digit c \<longleftrightarrow> 48 \<le> (of_char c :: nat) \<and> (of_char c :: nat) \<le> 57"

definition digits_value :: "string \<Rightarrow> nat" where
  "digits_value ds = foldl (\<lambda>a c. a * 10 + (of_char c - 48)) 0 ds"

text \<open>
  \<^verbatim>\<open>parseInt(s, 10)\<close>: leading white space is skipped, a sign is read, then the longest
  run of decimal digits; with no digit the result is \<^verbatim>\<open>NaN\<close>, and what follows the
  digits is ignored.
\<close>

definition parseInt :: "string \<Rightarrow> jsnum" where
  "parseInt s =
     (let t = dropWhile is_space s;
          neg = (case t of [] \<Rightarrow> False | c # _ \<Rightarrow> c = CHR ''-'');
          u = (case t of [] \<Rightarrow> [] | c # r \<Rightarrow> if c = CHR ''-'' \<or> c = CHR ''+'' then r else t);
          ds = takeWhile is_digit u
      in if ds = [] then NaN
         else Num (if neg then - int (digits_value ds) else int (digits_value ds)))"

text \<open>\<^verbatim>\<open>Math.ceil(n / d)\<close> on a count.\<close>

definition Math_ceil_div :: "nat \<Rightarrow> nat \<Rightarrow> nat" where
  "Math_ceil_div n d = nat \<lceil>real n / real d\<rceil>"

section \<open>The store\<close>

text \<open>
  The collection behind the \<^verbatim>\<open>Post\<close> model: its documents in insertion order, the calls
  made on it so far, and what decides the failures a handler cannot foresee: the
  positions (in the sequence of calls) at which the store is unavailable, and how the
  driver treats a \<^verbatim>\<open>skip\<close> that is \<^verbatim>\<open>NaN\<close> (\<open>None\<close>: the query is rejected; \<open>Some k\<close>: \<open>k\<close>
  documents are skipped).
\<close>

datatype store_call =
    Save post
  | Find nat jsnum
  | CountDocuments
  | FindById string
  | FindByIdAndRemove string
  | FindByIdAndUpdate string json

datatype store_error =
    StoreUnavailable
  | CastError
  | DuplicateKey
  | BadSkip

record store =
  docs :: "post list"
  calls :: "store_call list"
  faults :: "nat list"
  nan_skip :: "nat option"

definition unavailable :: "store \<Rightarrow> bool" where
  "unavailable s \<longleftrightarrow> length (calls s) \<in> set (faults s)"

definition logged :: "store_call \<Rightarrow> store \<Rightarrow> store" where
  "logged c s = s\<lparr>calls := calls s @ [c]\<rparr>"

text \<open>\<^verbatim>\<open>post.save()\<close>: the insertion of a new document; ids are unique in a collection.\<close>

definition Post_save :: "post \<Rightarrow> store \<Rightarrow> (store_error + post) \<times> store" where
  "Post_save p s =
     (if unavailable s then (Inl StoreUnavailable, logged (Save p) s)
      else if oid p \<in> set (map oid (docs s)) then (Inl DuplicateKey, logged (Save p) s)
      else (Inr p, (logged (Save p) s)\<lparr>docs := docs s @ [p]\<rparr>))"

text \<open>\<^verbatim>\<open>Post.find().sort({ _id: -1 }).limit(lmt).skip(skp).exec()\<close>.\<close>

definition Post_find :: "nat \<Rightarrow> jsnum \<Rightarrow> store \<Rightarrow> (store_error + post list) \<times> store" where
  "Post_find lmt skp s =
     (if unavailable s then (Inl StoreUnavailable, logged (Find lmt skp) s)
      else
        (case (case skp of
                 NaN \<Rightarrow> nan_skip s
               | Num n \<Rightarrow> if n < 0 then None else Some (nat n)) of
           None \<Rightarrow> (Inl BadSkip, logged (Find lmt skp) s)
         | Some k \<Rightarrow>
            (Inr (take lmt (drop k (rev (sort_key oid (docs s))))),
             logged (Find lmt skp) s)))"

text \<open>\<^verbatim>\<open>Post.countDocuments().exec()\<close>.\<close>

definition Post_countDocuments :: "store \<Rightarrow> (store_error + nat) \<times> store" where
  "Post_countDocuments s =
     (if unavailable s then (Inl StoreUnavailable, logged CountDocuments s)
      else (Inr (length (docs s)), logged CountDocuments s))"

text \<open>\<^verbatim>\<open>Post.findById(id).exec()\<close>: \<open>Inr None\<close> is the \<^verbatim>\<open>null\<close> of a document not found.\<close>

definition Post_findById :: "string \<Rightarrow> store \<Rightarrow> (store_error + post option) \<times> store" where
  "Post_findById i s =
     (if unavailable s then (Inl StoreUnavailable, logged (FindById i) s)
      else
        (case ObjectId_cast i of
           None \<Rightarrow> (Inl CastError, logged (FindById i) s)
         | Some w \<Rightarrow> (Inr (find (\<lambda>p. oid p = w) (docs s)), logged (FindById i) s)))"

fun remove_first :: "('a \<Rightarrow> bool) \<Rightarrow> 'a list \<Rightarrow> 'a list" where
  "remove_first P [] = []"
| "remove_first P (x # xs) = (if P x then xs else x # remove_first P xs)"

text \<open>\<^verbatim>\<open>Post.findByIdAndRemove(id).exec()\<close>: the document removed, or \<^verbatim>\<open>null\<close>.\<close>

definition Post_findByIdAndRemove ::
  "string \<Rightarrow> store \<Rightarrow> (store_error + post option) \<times> store" where
  "Post_findByIdAndRemove i s =
     (if unavailable s then (Inl StoreUnavailable, logged (FindByIdAndRemove i) s)
      else
        (case ObjectId_cast i of
           None \<Rightarrow> (Inl CastError, logged (FindByIdAndRemove i) s)
         | Some w \<Rightarrow>
            (Inr (find (\<lambda>p. oid p = w) (docs s)),
             (logged (FindByIdAndRemove i) s)
               \<lparr>docs := remove_first (\<lambda>p. oid p = w) (docs s)\<rparr>)))"

text \<open>
  The update document of \<^verbatim>\<open>findByIdAndUpdate\<close>, cast against \<^verbatim>\<open>PostSchema\<close>: for each of
  the three paths, \<open>None\<close> when the body does not have it and the new value when it has.
  The handler passes a body that passed validation; a value that is not a string (an
  array of strings for \<^verbatim>\<open>tags\<close>) gives no patch, for the cast error of mongoose.
\<close>

record patch =
  new_title :: "string option"
  new_body :: "string option"
  new_tags :: "string list option"

fun cast_path :: "(json option \<Rightarrow> 'a option) \<Rightarrow> json option \<Rightarrow> 'a option option" where
  "cast_path f None = Some None"
| "cast_path f (Some v) = (case f (Some v) of None \<Rightarrow> None | Some a \<Rightarrow> Some (Some a))"

definition cast_update :: "json \<Rightarrow> patch option" where
  "cast_update b =
     (case cast_path as_string (field ''title'' b) of
        None \<Rightarrow> None
      | Some t \<Rightarrow>
         (case cast_path as_string (field ''body'' b) of
            None \<Rightarrow> None
          | Some bd \<Rightarrow>
             (case cast_path as_string_array (field ''tags'' b) of
                None \<Rightarrow> None
              | Some tg \<Rightarrow> Some \<lparr>new_title = t, new_body = bd, new_tags = tg\<rparr>)))"

definition apply_patch :: "patch \<Rightarrow> post \<Rightarrow> post" where
  "apply_patch u p =
     p\<lparr>title := (case new_title u of None \<Rightarrow> title p | Some t \<Rightarrow> t),
       body := (case new_body u of None \<Rightarrow> body p | Some b \<Rightarrow> b),
       tags := (case new_tags u of None \<Rightarrow> tags p | Some t \<Rightarrow> t)\<rparr>"

fun update_first :: "('a \<Rightarrow> bool) \<Rightarrow> ('a \<Rightarrow> 'a) \<Rightarrow> 'a list \<Rightarrow> 'a list" where
  "update_first P f [] = []"
| "update_first P f (x # xs) = (if P x then f x # xs else x # update_first P f xs)"

text \<open>
  \<^verbatim>\<open>Post.findByIdAndUpdate(id, update, { new: true }).exec()\<close>: the document after the
  update, or \<^verbatim>\<open>null\<close>.
\<close>

definition Post_findByIdAndUpdate ::
  "string \<Rightarrow> json \<Rightarrow> store \<Rightarrow> (store_error + post option) \<times> store" where
  "Post_findByIdAndUpdate i b s =
     (if unavailable s then (Inl StoreUnavailable, logged (FindByIdAndUpdate i b) s)
      else
        (case ObjectId_cast i of
           None \<Rightarrow> (Inl CastError, logged (FindByIdAndUpdate i b) s)
         | Some w \<Rightarrow>
            (case cast_update b of
               None \<Rightarrow> (Inl CastError, logged (FindByIdAndUpdate i b) s)
             | Some u \<Rightarrow>
                (Inr (map_option (apply_patch u) (find (\<lambda>p. oid p = w) (docs s))),
                 (logged (FindByIdAndUpdate i b) s)
                   \<lparr>docs := update_first (\<lambda>p. oid p = w) (apply_patch u) (docs s)\<rparr>))))"

section \<open>The Koa context\<close>

text \<open>
  The parts of \<^verbatim>\<open>ctx\<close> the handlers use: \<^verbatim>\<open>ctx.params.id\<close>, \<^verbatim>\<open>ctx.query.page\<close>,
  \<^verbatim>\<open>ctx.request.body\<close>, and the response: \<^verbatim>\<open>ctx.status\<close>, \<^verbatim>\<open>ctx.body\<close> and the headers.
  Koa starts a response with status 404 and no body. Assigning \<^verbatim>\<open>ctx.status\<close> marks the
  status as explicit (and drops the body for 204, 205 and 304); assigning \<^verbatim>\<open>ctx.body\<close>
  makes the status 200 unless it is explicit. \<^verbatim>\<open>ctx.throw(500, e)\<close> ends the handler with
  an error, which Koa answers with that status.
\<close>

datatype payload =
    ErrorDetail joi_error
  | PostDoc post
  | PostDocs "post list"

record ctx =
  params_id :: string
  query_page :: "string option"
  request_body :: json
  status :: nat
  explicit_status :: bool
  ctx_body :: "payload option"
  headers :: "(string \<times> nat) list"

datatype http_error = HttpError nat store_error

type_synonym outcome = "(http_error + ctx) \<times> store"

definition new_ctx :: "string \<Rightarrow> string option \<Rightarrow> json \<Rightarrow> ctx" where
  "new_ctx i q b =
     \<lparr>params_id = i, query_page = q, request_body = b, status = 404,
      explicit_status = False, ctx_body = None, headers = []\<rparr>"

definition set_status :: "nat \<Rightarrow> ctx \<Rightarrow> ctx" where
  "set_status code c =
     c\<lparr>status := code, explicit_status := True,
       ctx_body := (if code \<in> {204, 205, 304} then None else ctx_body c)\<rparr>"

definition set_body :: "payload \<Rightarrow> ctx \<Rightarrow> ctx" where
  "set_body v c =
     c\<lparr>ctx_body := Some v, status := (if explicit_status c then status c else 200)\<rparr>"

definition set_header :: "string \<Rightarrow> nat \<Rightarrow> ctx \<Rightarrow> ctx" where
  "set_header k v c = c\<lparr>headers := (k, v) # filter (\<lambda>h. fst h \<noteq> k) (headers c)\<rparr>"

text \<open>The status and the body of the response that Koa sends for an outcome.\<close>

fun response_status :: "http_error + ctx \<Rightarrow> nat" where
  "response_status (Inl (HttpError code e)) = code"
| "response_status (Inr c) = status c"

fun response_body :: "http_error + ctx \<Rightarrow> payload option" where
  "response_body (Inl e) = None"
| "response_body (Inr c) = ctx_body c"

section \<open>The handlers\<close>

text \<open>\<^verbatim>\<open>checkObjectId(ctx, next)\<close>; \<open>next\<close> is the rest of the middleware chain.\<close>

definition checkObjectId :: "ctx \<Rightarrow> (ctx \<Rightarrow> store \<Rightarrow> outcome) \<Rightarrow> store \<Rightarrow> outcome" where
  "checkObjectId c next s =
     (if \<not> ObjectId_isValid (params_id c) then (Inr (set_status 400 c), s)
      else next c s)"

text \<open>The schema of \<^verbatim>\<open>write\<close>.\<close>

definition write_schema :: joi where
  "write_schema =
     Joi_object_keys
       [(''title'', required Joi_string),
        (''body'', required Joi_string),
        (''tags'', required (Joi_array_items Joi_string))]"

text \<open>
  \<^verbatim>\<open>write\<close> (\<^verbatim>\<open>POST /api/posts\<close>). A document that mongoose cannot cast is rejected by
  \<^verbatim>\<open>save\<close> before the store is reached.
\<close>

definition write_post :: "env \<Rightarrow> ctx \<Rightarrow> store \<Rightarrow> outcome" where
  "write_post e c s =
     (case validate write_schema (request_body c) of
        Some err \<Rightarrow> (Inr (set_body (ErrorDetail err) (set_status 400 c)), s)
      | None \<Rightarrow>
         (case new_Post e (request_body c) of
            None \<Rightarrow> (Inl (HttpError 500 CastError), s)
          | Some post \<Rightarrow>
             (case Post_save post s of
                (Inl err, s') \<Rightarrow> (Inl (HttpError 500 err), s')
              | (Inr saved, s') \<Rightarrow> (Inr (set_body (PostDoc saved) c), s'))))"

text \<open>
  The function that \<^verbatim>\<open>list\<close> maps over the documents found:
  \<^verbatim>\<open>post.body.length < 200 ? post.body : `${post.body.slice(0, 200)}...`\<close>.
\<close>

definition list_item :: "post \<Rightarrow> post" where
  "list_item p =
     p\<lparr>body := (if length (body p) < 200 then body p else take 200 (body p) @ ''...'')\<rparr>"

text \<open>\<^verbatim>\<open>ctx.query.page || '1'\<close>: the default also replaces the empty string.\<close>

definition page_param :: "ctx \<Rightarrow> string" where
  "page_param c = (case query_page c of None \<Rightarrow> ''1'' | Some q \<Rightarrow> if q = [] then ''1'' else q)"

text \<open>\<^verbatim>\<open>list\<close> (\<^verbatim>\<open>GET /api/posts\<close>).\<close>

definition list :: "ctx \<Rightarrow> store \<Rightarrow> outcome" where
  "list c s =
     (let page = parseInt (page_param c) in
      if js_lt page (Num 1) then (Inr (set_status 400 c), s)
      else
        (case Post_find 10 (js_mul (js_sub page (Num 1)) (Num 10)) s of
           (Inl err, s1) \<Rightarrow> (Inl (HttpError 500 err), s1)
         | (Inr posts, s1) \<Rightarrow>
            (case Post_countDocuments s1 of
               (Inl err, s2) \<Rightarrow> (Inl (HttpError 500 err), s2)
             | (Inr postCount, s2) \<Rightarrow>
                (Inr (set_body (PostDocs (map list_item posts))
                        (set_header ''Last-Page'' (Math_ceil_div postCount 10) c)),
                 s2))))"

text \<open>\<^verbatim>\<open>read\<close> (\<^verbatim>\<open>GET /api/posts/:id\<close>).\<close>

definition read :: "ctx \<Rightarrow> store \<Rightarrow> outcome" where
  "read c s =
     (case Post_findById (params_id c) s of
        (Inl err, s') \<Rightarrow> (Inl (HttpError 500 err), s')
      | (Inr None, s') \<Rightarrow> (Inr (set_status 404 c), s')
      | (Inr (Some post), s') \<Rightarrow> (Inr (set_body (PostDoc post) c), s'))"

text \<open>\<^verbatim>\<open>remove\<close> (\<^verbatim>\<open>DELETE /api/posts/:id\<close>).\<close>

definition remove :: "ctx \<Rightarrow> store \<Rightarrow> outcome" where
  "remove c s =
     (case Post_findByIdAndRemove (params_id c) s of
        (Inl err, s') \<Rightarrow> (Inl (HttpError 500 err), s')
      | (Inr _, s') \<Rightarrow> (Inr (set_status 204 c), s'))"

text \<open>The schema of \<^verbatim>\<open>update\<close>: that of \<^verbatim>\<open>write\<close> without \<^verbatim>\<open>required()\<close>.\<close>

definition update_schema :: joi where
  "update_schema =
     Joi_object_keys
       [(''title'', Joi_string),
        (''body'', Joi_string),
        (''tags'', Joi_array_items Joi_string)]"

text \<open>\<^verbatim>\<open>update\<close> (\<^verbatim>\<open>PATCH /api/posts/:id\<close>).\<close>

definition update :: "ctx \<Rightarrow> store \<Rightarrow> outcome" where
  "update c s =
     (case validate update_schema (request_body c) of
        Some err \<Rightarrow> (Inr (set_body (ErrorDetail err) (set_status 400 c)), s)
      | None \<Rightarrow>
         (case Post_findByIdAndUpdate (params_id c) (request_body c) s of
            (Inl err, s') \<Rightarrow> (Inl (HttpError 500 err), s')
          | (Inr None, s') \<Rightarrow> (Inr (set_status 404 c), s')
          | (Inr (Some post), s') \<Rightarrow> (Inr (set_body (PostDoc post) c), s')))"

section \<open>Vocabulary of the properties\<close>

text \<open>A text value in the sense of the schemas: a string that is not empty.\<close>

fun is_text :: "json \<Rightarrow> bool" where
  "is_text (JStr s) = (s \<noteq> [])"
| "is_text _ = False"

fun is_text_array :: "json \<Rightarrow> bool" where
  "is_text_array (JArr xs) = list_all is_text xs"
| "is_text_array _ = False"

fun is_string :: "json \<Rightarrow> bool" where
  "is_string (JStr s) = True"
| "is_string _ = False"

fun is_string_array :: "json \<Rightarrow> bool" where
  "is_string_array (JArr xs) = list_all is_string xs"
| "is_string_array _ = False"

text \<open>A body that lacks one of the three fields a creation requires.\<close>

definition missing_required :: "json \<Rightarrow> bool" where
  "missing_required b \<longleftrightarrow>
     field ''title'' b = None \<or> field ''body'' b = None \<or> field ''tags'' b = None"

text \<open>A body in which a field that is there has the wrong type.\<close>

definition wrongly_typed :: "json \<Rightarrow> bool" where
  "wrongly_typed b \<longleftrightarrow>
     (case field ''title'' b of None \<Rightarrow> False | Some v \<Rightarrow> \<not> is_string v)
     \<or> (case field ''body'' b of None \<Rightarrow> False | Some v \<Rightarrow> \<not> is_string v)
     \<or> (case field ''tags'' b of None \<Rightarrow> False | Some v \<Rightarrow> \<not> is_string_array v)"

text \<open>A collection keeps the ids of its documents distinct.\<close>

definition wf_store :: "store \<Rightarrow> bool" where
  "wf_store s \<longleftrightarrow> distinct (map oid (docs s))"

text \<open>Inputs on which the theorems below are run.\<close>

definition empty_store :: store where
  "empty_store = \<lparr>docs = [], calls = [], faults = [], nan_skip = None\<rparr>"

definition sample_env :: env where
  "sample_env = \<lparr>fresh_id = 0x5f1e, now = 1000\<rparr>"

definition sample_body :: json where
  "sample_body =
     JObj [(''title'', JStr ''T''), (''body'', JStr ''B''),
           (''tags'', JArr [JStr ''x'', JStr ''y''])]"

definition sample_post :: post where
  "sample_post =
     \<lparr>oid = 0x5f1e, title = ''T'', body = ''B'', tags = [''x'', ''y''],
      publishedData = 1000\<rparr>"

definition sample_store :: store where
  "sample_store = \<lparr>docs = [sample_post], calls = [], faults = [], nan_skip = None\<rparr>"

definition twelve_posts :: "post list" where
  "twelve_posts =
     map (\<lambda>n. \<lparr>oid = of_nat n, title = ''t'', body = ''b'', tags = [], publishedData = n\<rparr>)
       [3, 1, 2, 4, 12, 5, 7, 6, 8, 10, 9, 11]"

definition twelve_store :: store where
  "twelve_store = \<lparr>docs = twelve_posts, calls = [], faults = [], nan_skip = None\<rparr>"

definition long_post :: post where
  "long_post =
     \<lparr>oid = 0x5f1e, title = ''T'', body = replicate 200 (CHR ''a''), tags = [],
      publishedData = 1000\<rparr>"

definition long_store :: store where
  "long_store = \<lparr>docs = [long_post], calls = [], faults = [], nan_skip = None\<rparr>"

section \<open>Validation\<close>

lemma first_error_None:
  "(case a of Some e \<Rightarrow> Some e | None \<Rightarrow> b) = None \<longleftrightarrow> a = None \<and> b = None"
  by (cases a) simp_all

lemma unknown_key_None:
  "(case xs of [] \<Rightarrow> None | kv # _ \<Rightarrow> Some (f kv)) = None \<longleftrightarrow> xs = []"
  by (cases xs) simp_all

lemma validate_string_None:
  "validate_at Joi_string p (Some v) = None \<longleftrightarrow> is_text v"
  by (cases v) simp_all

lemma validate_required_string_None:
  "validate_at (required Joi_string) p v = None \<longleftrightarrow> (\<exists>x. v = Some x \<and> is_text x)"
  by (cases v) (simp_all add: validate_string_None)

lemma validate_items_string_None:
  "validate_items Joi_string p i xs = None \<longleftrightarrow> list_all is_text xs"
  by (induction xs arbitrary: i) (simp_all add: first_error_None validate_string_None)

lemma validate_array_None:
  "validate_at (Joi_array_items Joi_string) p (Some v) = None \<longleftrightarrow> is_text_array v"
  by (cases v) (simp_all add: validate_items_string_None)

lemma validate_required_array_None:
  "validate_at (required (Joi_array_items Joi_string)) p v = None
     \<longleftrightarrow> (\<exists>x. v = Some x \<and> is_text_array x)"
  by (cases v) (simp_all add: validate_array_None)

lemma validate_optional_string_None:
  "validate_at Joi_string p v = None \<longleftrightarrow> (\<forall>x. v = Some x \<longrightarrow> is_text x)"
  by (cases v) (simp_all add: validate_string_None)

lemma validate_optional_array_None:
  "validate_at (Joi_array_items Joi_string) p v = None \<longleftrightarrow> (\<forall>x. v = Some x \<longrightarrow> is_text_array x)"
  by (cases v) (simp_all add: validate_array_None)

lemma validate_write_schema_None:
  "validate write_schema b = None \<longleftrightarrow>
     (\<exists>kvs x y z. b = JObj kvs
        \<and> map_of kvs ''title'' = Some x \<and> is_text x
        \<and> map_of kvs ''body'' = Some y \<and> is_text y
        \<and> map_of kvs ''tags'' = Some z \<and> is_text_array z
        \<and> fst ` set kvs \<subseteq> {''title'', ''body'', ''tags''})"
proof (cases b)
  case (JObj kvs)
  have unknown: "(filter (\<lambda>kv. fst kv \<noteq> ''title'' \<and> fst kv \<noteq> ''body'' \<and> fst kv \<noteq> ''tags'') kvs = [])
      \<longleftrightarrow> fst ` set kvs \<subseteq> {''title'', ''body'', ''tags''}"
    by (auto simp: filter_empty_conv)
  show ?thesis
    unfolding validate_def write_schema_def JObj
    by (simp add: first_error_None unknown_key_None validate_required_string_None
          validate_required_array_None unknown) blast
qed (simp_all add: validate_def write_schema_def)

lemma validate_update_schema_None:
  "validate update_schema b = None \<longleftrightarrow>
     (\<exists>kvs. b = JObj kvs
        \<and> (\<forall>x. map_of kvs ''title'' = Some x \<longrightarrow> is_text x)
        \<and> (\<forall>x. map_of kvs ''body'' = Some x \<longrightarrow> is_text x)
        \<and> (\<forall>x. map_of kvs ''tags'' = Some x \<longrightarrow> is_text_array x)
        \<and> fst ` set kvs \<subseteq> {''title'', ''body'', ''tags''})"
proof (cases b)
  case (JObj kvs)
  have unknown: "(filter (\<lambda>kv. fst kv \<noteq> ''title'' \<and> fst kv \<noteq> ''body'' \<and> fst kv \<noteq> ''tags'') kvs = [])
      \<longleftrightarrow> fst ` set kvs \<subseteq> {''title'', ''body'', ''tags''}"
    by (auto simp: filter_empty_conv)
  show ?thesis
    unfolding validate_def update_schema_def JObj
    by (simp add: first_error_None unknown_key_None validate_optional_string_None
          validate_optional_array_None unknown)
qed (simp_all add: validate_def update_schema_def)


section \<open>Creating a post\<close>

lemma write_post_invalid:
  assumes "validate write_schema (request_body c) = Some err"
  shows "write_post e c s = (Inr (set_body (ErrorDetail err) (set_status 400 c)), s)"
  using assms by (simp add: write_post_def)

lemma is_text_is_string: "is_text v \<Longrightarrow> is_string v"
  by (cases v) simp_all

lemma is_text_array_is_string_array: "is_text_array v \<Longrightarrow> is_string_array v"
  by (cases v) (auto simp: list_all_iff is_text_is_string)

lemma rejected_response:
  "status (set_body (ErrorDetail err) (set_status 400 c)) = 400"
  "ctx_body (set_body (ErrorDetail err) (set_status 400 c)) = Some (ErrorDetail err)"
  by (simp_all add: set_body_def set_status_def)

text \<open>
  C1: a create request whose body lacks \<^verbatim>\<open>title\<close>, \<^verbatim>\<open>body\<close> or \<^verbatim>\<open>tags\<close>, or gives one of
  them the wrong type, is answered with status 400 and the validation error as body,
  and the store is left as it was: no call is made on it, no document is added.
\<close>

theorem write_rejects_missing_or_wrongly_typed:
  assumes "missing_required (request_body c) \<or> wrongly_typed (request_body c)"
  shows "\<exists>err. validate write_schema (request_body c) = Some err
           \<and> response_status (fst (write_post e c s)) = 400
           \<and> response_body (fst (write_post e c s)) = Some (ErrorDetail err)
           \<and> snd (write_post e c s) = s"
proof -
  have "validate write_schema (request_body c) \<noteq> None"
  proof
    assume "validate write_schema (request_body c) = None"
    then obtain kvs x y z where b: "request_body c = JObj kvs"
      and t: "map_of kvs ''title'' = Some x" "is_text x"
      and bd: "map_of kvs ''body'' = Some y" "is_text y"
      and tg: "map_of kvs ''tags'' = Some z" "is_text_array z"
      unfolding validate_write_schema_None by blast
    have "\<not> missing_required (request_body c)"
      by (simp add: missing_required_def b t bd tg)
    moreover have "\<not> wrongly_typed (request_body c)"
      by (simp add: wrongly_typed_def b t bd tg is_text_is_string
            is_text_array_is_string_array)
    ultimately show False using assms by blast
  qed
  then obtain err where err: "validate write_schema (request_body c) = Some err"
    by blast
  show ?thesis
    by (rule exI [of _ err]) (simp add: err write_post_invalid [OF err] rejected_response)
qed

theorem write_rejects_missing_or_wrongly_typed_witness:
  "missing_required (JObj [(''title'', JStr ''T''), (''tags'', JArr [])])
   \<and> response_status
        (fst (write_post sample_env
               (new_ctx [] None (JObj [(''title'', JStr ''T''), (''tags'', JArr [])]))
               empty_store)) = 400
   \<and> snd (write_post sample_env
             (new_ctx [] None (JObj [(''title'', JStr ''T''), (''tags'', JArr [])]))
             empty_store) = empty_store"
  using write_rejects_missing_or_wrongly_typed
    [of "new_ctx [] None (JObj [(''title'', JStr ''T''), (''tags'', JArr [])])"
        sample_env empty_store]
  by (auto simp: missing_required_def new_ctx_def)

text \<open>
  C10: a create request whose \<^verbatim>\<open>title\<close> or \<^verbatim>\<open>body\<close> is the empty string is answered with
  status 400 and the store is left as it was; a required string schema rejects the empty
  string with the error \<^verbatim>\<open>string.empty\<close>.
\<close>

theorem write_rejects_empty_string:
  assumes "field ''title'' (request_body c) = Some (JStr [])
           \<or> field ''body'' (request_body c) = Some (JStr [])"
  shows "\<exists>err. validate write_schema (request_body c) = Some err
           \<and> response_status (fst (write_post e c s)) = 400
           \<and> response_body (fst (write_post e c s)) = Some (ErrorDetail err)
           \<and> snd (write_post e c s) = s
           \<and> validate_at (required Joi_string) p (Some (JStr [])) =
               Some (ValidationError string_empty p)"
proof -
  have "validate write_schema (request_body c) \<noteq> None"
  proof
    assume "validate write_schema (request_body c) = None"
    then obtain kvs x y where b: "request_body c = JObj kvs"
      and t: "map_of kvs ''title'' = Some x" "is_text x"
      and bd: "map_of kvs ''body'' = Some y" "is_text y"
      unfolding validate_write_schema_None by blast
    from assms show False
      using t bd by (auto simp: b)
  qed
  then obtain err where err: "validate write_schema (request_body c) = Some err"
    by blast
  show ?thesis
    by (rule exI [of _ err]) (simp add: err write_post_invalid [OF err] rejected_response)
qed

theorem write_rejects_empty_string_witness:
  "field ''body'' (JObj [(''title'', JStr ''T''), (''body'', JStr []), (''tags'', JArr [])])
     = Some (JStr [])
   \<and> response_status
        (fst (write_post sample_env
               (new_ctx [] None
                  (JObj [(''title'', JStr ''T''), (''body'', JStr []), (''tags'', JArr [])]))
               empty_store)) = 400
   \<and> snd (write_post sample_env
             (new_ctx [] None
                (JObj [(''title'', JStr ''T''), (''body'', JStr []), (''tags'', JArr [])]))
             empty_store) = empty_store"
  using write_rejects_empty_string
    [of "new_ctx [] None
           (JObj [(''title'', JStr ''T''), (''body'', JStr []), (''tags'', JArr [])])"
        sample_env empty_store]
  by (auto simp: new_ctx_def)

section \<open>The id-format guard\<close>

lemma ObjectId_cast_Some_iff: "(\<exists>w. ObjectId_cast i = Some w) \<longleftrightarrow> ObjectId_isValid i"
  by (auto simp: ObjectId_cast_def ObjectId_isValid_def)

lemma ObjectId_cast_None_iff: "ObjectId_cast i = None \<longleftrightarrow> \<not> ObjectId_isValid i"
  by (auto simp: ObjectId_cast_def ObjectId_isValid_def)

text \<open>
  C4: on an id that \<^verbatim>\<open>ObjectId.isValid\<close> rejects, the guard answers 400 and its result
  does not depend on the wrapped operation: the context only has its status set and
  the store is the one it was given. On an id that is valid, the guard is the wrapped
  operation.
\<close>

theorem checkObjectId_guard:
  "(\<not> ObjectId_isValid (params_id c) \<longrightarrow>
      fst (checkObjectId c next s) = Inr (set_status 400 c)
      \<and> response_status (fst (checkObjectId c next s)) = 400
      \<and> snd (checkObjectId c next s) = s)
   \<and> (ObjectId_isValid (params_id c) \<longrightarrow> checkObjectId c next s = next c s)"
  by (simp add: checkObjectId_def set_status_def)

theorem checkObjectId_guard_witness:
  "\<not> ObjectId_isValid (params_id (new_ctx ''abc'' None JNull))
   \<and> response_status (fst (checkObjectId (new_ctx ''abc'' None JNull) read sample_store)) = 400
   \<and> snd (checkObjectId (new_ctx ''abc'' None JNull) read sample_store) = sample_store
   \<and> ObjectId_isValid (params_id (new_ctx ''000000000000000000005f1e'' None JNull))
   \<and> checkObjectId (new_ctx ''000000000000000000005f1e'' None JNull) read sample_store
       = read (new_ctx ''000000000000000000005f1e'' None JNull) sample_store"
  using checkObjectId_guard [of "new_ctx ''abc'' None JNull" read sample_store]
    checkObjectId_guard [of "new_ctx ''000000000000000000005f1e'' None JNull" read sample_store]
  by (simp add: new_ctx_def ObjectId_isValid_def is_hex_def set_status_def)

section \<open>Listing\<close>

lemma page_param_new_ctx:
  "page_param (new_ctx i q b) = (case q of None \<Rightarrow> ''1'' | Some x \<Rightarrow> if x = [] then ''1'' else x)"
  by (simp add: page_param_def new_ctx_def)

text \<open>
  C8: when the page parameter parses to a number below 1, the list handler answers 400
  with no body and leaves the store as it was: no query is made.
\<close>

theorem list_rejects_page_below_one:
  assumes "parseInt (page_param (new_ctx i q b)) = Num n" and "n < 1"
  shows "response_status (fst (list (new_ctx i q b) s)) = 400
         \<and> response_body (fst (list (new_ctx i q b) s)) = None
         \<and> snd (list (new_ctx i q b) s) = s"
  using assms by (simp add: list_def set_status_def) (simp add: new_ctx_def)

lemma parseInt_0: "parseInt ''0'' = Num 0"
  by (simp add: parseInt_def is_space_def is_digit_def digits_value_def)

lemma parseInt_minus_3: "parseInt ''-3'' = Num (- 3)"
  by (simp add: parseInt_def is_space_def is_digit_def digits_value_def)

lemma parseInt_abc: "parseInt ''abc'' = NaN"
  by (simp add: parseInt_def is_space_def is_digit_def digits_value_def)

theorem list_rejects_page_below_one_witness:
  "parseInt (page_param (new_ctx [] (Some ''0'') JNull)) = Num 0
   \<and> response_status (fst (list (new_ctx [] (Some ''0'') JNull) sample_store)) = 400
   \<and> response_body (fst (list (new_ctx [] (Some ''0'') JNull) sample_store)) = None
   \<and> snd (list (new_ctx [] (Some ''0'') JNull) sample_store) = sample_store
   \<and> parseInt (page_param (new_ctx [] (Some ''-3'') JNull)) = Num (- 3)
   \<and> response_status (fst (list (new_ctx [] (Some ''-3'') JNull) sample_store)) = 400"
  using list_rejects_page_below_one [of "[]" "Some ''0''" JNull 0 sample_store]
    list_rejects_page_below_one [of "[]" "Some ''-3''" JNull "- 3" sample_store]
  by (simp add: page_param_new_ctx parseInt_0 parseInt_minus_3)

lemma status_new_ctx_set_body:
  "status (set_body v (set_header k n (new_ctx i q b))) = 200"
  by (simp add: set_body_def set_header_def new_ctx_def)

text \<open>
  C9: when the page parameter is a non-empty string that \<^verbatim>\<open>parseInt\<close> turns into \<^verbatim>\<open>NaN\<close>,
  the comparison \<^verbatim>\<open>page < 1\<close> is false, the handler does not answer 400, and the next call
  on the store is the query with a \<^verbatim>\<open>NaN\<close> skip.
\<close>

theorem list_nan_page_reaches_store:
  assumes "q \<noteq> []" and "parseInt q = NaN"
  shows "\<not> js_lt (parseInt q) (Num 1)
         \<and> response_status (fst (list (new_ctx i (Some q) b) s)) \<in> {200, 500}
         \<and> response_status (fst (list (new_ctx i (Some q) b) s)) \<noteq> 400
         \<and> (\<exists>rest. calls (snd (list (new_ctx i (Some q) b) s))
                     = calls s @ Find 10 NaN # rest)"
  using assms
  by (auto simp: list_def page_param_new_ctx Post_find_def Post_countDocuments_def logged_def
        status_new_ctx_set_body split: option.splits)

theorem list_nan_page_reaches_store_witness:
  "''abc'' \<noteq> [] \<and> parseInt ''abc'' = NaN
   \<and> response_status (fst (list (new_ctx [] (Some ''abc'') JNull) sample_store)) \<noteq> 400
   \<and> (\<exists>rest. calls (snd (list (new_ctx [] (Some ''abc'') JNull) sample_store))
               = calls sample_store @ Find 10 NaN # rest)"
  using list_nan_page_reaches_store [of "''abc''" "[]" JNull sample_store]
  by (simp add: parseInt_abc)


lemma Math_ceil_div_10: "Math_ceil_div n 10 = (n + 9) div 10"
proof -
  have "\<lceil>real n / 10\<rceil> = \<lceil>real_of_int (int n) / real_of_int 10\<rceil>" by simp
  also have "\<dots> = - ((- int n) div 10)" by (simp only: ceiling_divide_eq_div)
  also have "\<dots> = int ((n + 9) div 10)" by linarith
  finally show ?thesis by (simp add: Math_ceil_div_def)
qed

lemma oid_list_item: "oid (list_item p) = oid p"
  by (simp add: list_item_def)

lemma map_oid_list_item: "map oid (map list_item ps) = map oid ps"
  by (simp add: oid_list_item)

lemma map_insort_key: "map f (insort_key f x ys) = insort (f x) (map f ys)"
  by (induction ys) simp_all

lemma map_sort_key: "map f (sort_key f xs) = sort (map f xs)"
  by (induction xs) (simp_all add: sort_key_def map_insort_key)

lemma descending_page:
  "sorted_wrt (\<lambda>a b. oid b \<le> oid a) (take n (drop k (rev (sort_key oid ps))))"
proof -
  have "sorted (map oid (sort_key oid ps))" by (rule sorted_sort_key)
  then have "sorted_wrt (\<lambda>a b. oid a \<le> oid b) (sort_key oid ps)"
    by (simp add: sorted_wrt_map)
  then have "sorted_wrt (\<lambda>a b. oid b \<le> oid a) (rev (sort_key oid ps))"
    by (simp add: sorted_wrt_rev)
  then show ?thesis
    by (intro sorted_wrt_take sorted_wrt_drop)
qed

lemma unavailable_logged:
  "unavailable (logged k s) \<longleftrightarrow> Suc (length (calls s)) \<in> set (faults s)"
  by (simp add: unavailable_def logged_def)

lemma list_page_outcome:
  assumes "parseInt (page_param c) = Num p" and "1 \<le> p"
    and "\<not> unavailable s" and "Suc (length (calls s)) \<notin> set (faults s)"
  shows "list c s =
     (Inr (set_body
             (PostDocs (map list_item
                (take 10 (drop (nat (p - 1) * 10) (rev (sort_key oid (docs s)))))))
             (set_header ''Last-Page'' (Math_ceil_div (length (docs s)) 10) c)),
      logged CountDocuments (logged (Find 10 (Num ((p - 1) * 10))) s))"
proof -
  have k: "nat (p * 10 - 10) = nat (p - 1) * 10"
    using assms(2) by linarith
  have "\<not> unavailable (logged (Find 10 (Num ((p - 1) * 10))) s)"
    using assms(4) by (simp add: unavailable_logged)
  then show ?thesis
    using assms(1-3)
    by (simp add: list_def Post_find_def Post_countDocuments_def k)
       (simp add: logged_def)
qed

lemma list_item_fields:
  "list_all2
     (\<lambda>r d. oid r = oid d \<and> title r = title d \<and> tags r = tags d
        \<and> publishedData r = publishedData d
        \<and> body r = (if length (body d) < 200 then body d else take 200 (body d) @ ''...''))
     (map list_item ps) ps"
  by (simp add: list_all2_map1 list_all2_same list_item_def)

text \<open>
  C3: for a page number \<open>p \<ge> 1\<close>, when the two calls on the store succeed, the list
  handler answers 200 with at most 10 posts, in descending order of id: those that follow
  the first \<open>(p - 1) * 10\<close> of the collection in that order, each with the id, title,
  tags and date of the stored document and with its body, cut as the list does; the
  header \<^verbatim>\<open>Last-Page\<close> is the ceiling of the number of documents divided by 10. The
  documents of the store are not changed.
\<close>

theorem list_returns_page:
  assumes "parseInt (page_param (new_ctx i q b)) = Num p" and "1 \<le> p"
    and "\<not> unavailable s" and "Suc (length (calls s)) \<notin> set (faults s)"
  shows "\<exists>c' posts. fst (list (new_ctx i q b) s) = Inr c'
           \<and> status c' = 200
           \<and> ctx_body c' = Some (PostDocs posts)
           \<and> length posts \<le> 10
           \<and> sorted_wrt (\<lambda>a b. oid b \<le> oid a) posts
           \<and> map oid posts =
               take 10 (drop (nat (p - 1) * 10) (rev (sort (map oid (docs s)))))
           \<and> map_of (headers c') ''Last-Page''
               = Some (nat \<lceil>real (length (docs s)) / 10\<rceil>)
           \<and> docs (snd (list (new_ctx i q b) s)) = docs s
           \<and> list_all2
                (\<lambda>r d. oid r = oid d \<and> title r = title d \<and> tags r = tags d
                   \<and> publishedData r = publishedData d
                   \<and> body r =
                       (if length (body d) < 200 then body d
                        else take 200 (body d) @ ''...''))
                posts
                (take 10 (drop (nat (p - 1) * 10) (rev (sort_key oid (docs s)))))
           \<and> posts =
               map list_item
                 (take 10 (drop (nat (p - 1) * 10) (rev (sort_key oid (docs s)))))"
proof -
  let ?page = "take 10 (drop (nat (p - 1) * 10) (rev (sort_key oid (docs s))))"
  let ?c = "set_body (PostDocs (map list_item ?page))
              (set_header ''Last-Page'' (Math_ceil_div (length (docs s)) 10) (new_ctx i q b))"
  have out: "list (new_ctx i q b) s =
      (Inr ?c, logged CountDocuments (logged (Find 10 (Num ((p - 1) * 10))) s))"
    by (rule list_page_outcome [OF assms])
  have sorted: "sorted_wrt (\<lambda>a b. oid b \<le> oid a) (map list_item ?page)"
    using descending_page [of 10 "nat (p - 1) * 10" "docs s"]
    by (simp add: sorted_wrt_map oid_list_item)
  have ids: "map oid (map list_item ?page) =
      take 10 (drop (nat (p - 1) * 10) (rev (sort (map oid (docs s)))))"
    by (simp only: map_oid_list_item take_map drop_map rev_map map_sort_key [symmetric])
  have hdr: "map_of (headers ?c) ''Last-Page'' = Some (nat \<lceil>real (length (docs s)) / 10\<rceil>)"
    by (simp add: set_body_def set_header_def Math_ceil_div_def)
  have st: "status ?c = 200"
    by (rule status_new_ctx_set_body)
  have bd: "ctx_body ?c = Some (PostDocs (map list_item ?page))"
    by (simp add: set_body_def)
  have len: "length (map list_item ?page) \<le> 10"
    by simp
  have kept: "docs (logged CountDocuments (logged (Find 10 (Num ((p - 1) * 10))) s)) = docs s"
    by (simp add: logged_def)
  show ?thesis
    apply (rule exI [of _ ?c])
    apply (rule exI [of _ "map list_item ?page"])
    apply (simp only: out fst_conv snd_conv)
    apply (intro conjI)
            apply (rule refl)
           apply (rule st)
          apply (rule bd)
         apply (rule len)
        apply (rule sorted)
       apply (rule ids)
      apply (rule hdr)
     apply (rule kept)
    apply (rule list_item_fields)
    apply (rule refl)
    done
qed


lemma twelve_ids_descending:
  "rev (sort (map oid (docs twelve_store))) = [12, 11, 10, 9, 8, 7, 6, 5, 4, 3, 2, 1]"
  by code_simp

lemma parseInt_2: "parseInt ''2'' = Num 2"
  by (simp add: parseInt_def is_space_def is_digit_def digits_value_def)

lemma twelve_page_two:
  "take 10 (drop (nat (2 - 1) * 10) (rev (sort_key oid (docs twelve_store)))) =
     [\<lparr>oid = 2, title = ''t'', body = ''b'', tags = [], publishedData = 2\<rparr>,
      \<lparr>oid = 1, title = ''t'', body = ''b'', tags = [], publishedData = 1\<rparr>]"
  by code_simp

theorem list_returns_page_witness:
  "parseInt (page_param (new_ctx [] (Some ''2'') JNull)) = Num 2
   \<and> \<not> unavailable twelve_store
   \<and> (\<exists>c' posts. fst (list (new_ctx [] (Some ''2'') JNull) twelve_store) = Inr c'
           \<and> status c' = 200
           \<and> ctx_body c' = Some (PostDocs posts)
           \<and> length posts \<le> 10
           \<and> sorted_wrt (\<lambda>a b. oid b \<le> oid a) posts
           \<and> map oid posts = [2, 1]
           \<and> map title posts = [''t'', ''t'']
           \<and> map body posts = [''b'', ''b'']
           \<and> map tags posts = [[], []]
           \<and> map publishedData posts = [2, 1]
           \<and> map_of (headers c') ''Last-Page'' = Some 2
           \<and> docs (snd (list (new_ctx [] (Some ''2'') JNull) twelve_store)) = docs twelve_store)"
proof -
  let ?r = "list (new_ctx [] (Some ''2'') JNull) twelve_store"
  let ?page = "take 10 (drop (nat (2 - 1) * 10) (rev (sort_key oid (docs twelve_store))))"
  have page: "parseInt (page_param (new_ctx [] (Some ''2'') JNull)) = Num 2"
    by (simp add: page_param_new_ctx parseInt_2)
  have up: "\<not> unavailable twelve_store" "Suc (length (calls twelve_store)) \<notin> set (faults twelve_store)"
    by (simp_all add: unavailable_def twelve_store_def)
  have count: "length (docs twelve_store) = 12"
    by (simp add: twelve_store_def twelve_posts_def)
  have one: "(1::int) \<le> 2"
    by simp
  from list_returns_page [OF page one up]
  obtain c' posts where all:
    "fst ?r = Inr c'
     \<and> status c' = 200
     \<and> ctx_body c' = Some (PostDocs posts)
     \<and> length posts \<le> 10
     \<and> sorted_wrt (\<lambda>a b. oid b \<le> oid a) posts
     \<and> map oid posts = take 10 (drop (nat (2 - 1) * 10) (rev (sort (map oid (docs twelve_store)))))
     \<and> map_of (headers c') ''Last-Page'' = Some (nat \<lceil>real (length (docs twelve_store)) / 10\<rceil>)
     \<and> docs (snd ?r) = docs twelve_store
     \<and> list_all2
          (\<lambda>r d. oid r = oid d \<and> title r = title d \<and> tags r = tags d
             \<and> publishedData r = publishedData d
             \<and> body r = (if length (body d) < 200 then body d else take 200 (body d) @ ''...''))
          posts ?page
     \<and> posts = map list_item ?page"
    by (elim exE) (rule that)
  note d1 = all [THEN conjunct2]
  note d2 = d1 [THEN conjunct2]
  note d3 = d2 [THEN conjunct2]
  note d4 = d3 [THEN conjunct2]
  note d5 = d4 [THEN conjunct2]
  note d6 = d5 [THEN conjunct2]
  note d7 = d6 [THEN conjunct2]
  note d8 = d7 [THEN conjunct2]
  have ids: "map oid posts = [2, 1]"
    using d5 [THEN conjunct1] by (simp add: twelve_ids_descending)
  have hdr: "map_of (headers c') ''Last-Page'' = Some 2"
    using d6 [THEN conjunct1] by (simp add: count)
  from d8 [THEN conjunct1] obtain r1 r2 where posts: "posts = [r1, r2]"
    and r1: "title r1 = ''t''" "tags r1 = []" "publishedData r1 = 2" "body r1 = ''b''"
    and r2: "title r2 = ''t''" "tags r2 = []" "publishedData r2 = 1" "body r2 = ''b''"
    unfolding twelve_page_two by (auto simp: list_all2_Cons2)
  have fields: "map title posts = [''t'', ''t'']" "map body posts = [''b'', ''b'']"
    "map tags posts = [[], []]" "map publishedData posts = [2, 1]"
    by (simp_all add: posts r1 r2)
  have "\<exists>c' posts. fst ?r = Inr c'
           \<and> status c' = 200
           \<and> ctx_body c' = Some (PostDocs posts)
           \<and> length posts \<le> 10
           \<and> sorted_wrt (\<lambda>a b. oid b \<le> oid a) posts
           \<and> map oid posts = [2, 1]
           \<and> map title posts = [''t'', ''t'']
           \<and> map body posts = [''b'', ''b'']
           \<and> map tags posts = [[], []]
           \<and> map publishedData posts = [2, 1]
           \<and> map_of (headers c') ''Last-Page'' = Some 2
           \<and> docs (snd ?r) = docs twelve_store"
    apply (rule exI [of _ c'])
    apply (rule exI [of _ posts])
    apply (intro conjI)
               apply (rule all [THEN conjunct1])
              apply (rule d1 [THEN conjunct1])
             apply (rule d2 [THEN conjunct1])
            apply (rule d3 [THEN conjunct1])
           apply (rule d4 [THEN conjunct1])
          apply (rule ids)
         apply (rule fields(1))
        apply (rule fields(2))
       apply (rule fields(3))
      apply (rule fields(4))
     apply (rule hdr)
    apply (rule d7 [THEN conjunct1])
    done
  with page up(1) show ?thesis
    by (intro conjI)
qed

lemma parseInt_1: "parseInt ''1'' = Num 1"
  by (simp add: parseInt_def is_space_def is_digit_def digits_value_def)

lemma list_item_short: "length (body p) < 200 \<Longrightarrow> body (list_item p) = body p"
  by (simp add: list_item_def)

lemma list_item_long:
  "200 < length (body p) \<Longrightarrow> body (list_item p) = take 200 (body p) @ ''...''"
  by (simp add: list_item_def)

lemma list_item_other_fields:
  "oid (list_item p) = oid p \<and> title (list_item p) = title p \<and> tags (list_item p) = tags p
   \<and> publishedData (list_item p) = publishedData p"
  by (simp add: list_item_def)

text \<open>
  C2: the list handler on a post whose stored body has exactly 200 characters: the body
  of the response is the stored body followed by three dots, not the stored body.
\<close>

theorem list_marks_body_of_200_characters:
  "length (body long_post) = 200
   \<and> response_body (fst (list (new_ctx [] None JNull) long_store))
       = Some (PostDocs [long_post\<lparr>body := body long_post @ ''...''\<rparr>])
   \<and> response_body (fst (list (new_ctx [] None JNull) long_store))
       \<noteq> Some (PostDocs [long_post])"
proof -
  have page: "parseInt (page_param (new_ctx [] None JNull)) = Num 1"
    by (simp add: page_param_new_ctx parseInt_1)
  have up: "\<not> unavailable long_store" "Suc (length (calls long_store)) \<notin> set (faults long_store)"
    by (simp_all add: unavailable_def long_store_def)
  have len: "length (body long_post) = 200"
    by (simp add: long_post_def)
  have item: "list_item long_post = long_post\<lparr>body := body long_post @ ''...''\<rparr>"
    by (simp add: list_item_def len)
  have differs: "long_post\<lparr>body := body long_post @ ''...''\<rparr> \<noteq> long_post"
  proof
    assume "long_post\<lparr>body := body long_post @ ''...''\<rparr> = long_post"
    then have "body (long_post\<lparr>body := body long_post @ ''...''\<rparr>) = body long_post"
      by simp
    then show False by simp
  qed
  have docs: "docs long_store = [long_post]"
    by (simp add: long_store_def)
  show ?thesis
    by (simp add: list_page_outcome [OF page _ up] set_body_def docs item len differs)
qed

section \<open>Ids and the store\<close>

lemma hex_chars: "\<forall>n \<in> set [0..<16]. hex_val (hex_char n) = n \<and> is_hex (hex_char n)"
  by code_simp

lemma hex_char_val: "n < 16 \<Longrightarrow> hex_val (hex_char n) = n \<and> is_hex (hex_char n)"
  using hex_chars by simp

lemma length_hex_digits: "length (hex_digits k v) = k"
  by (induction k arbitrary: v) simp_all

lemma is_hex_hex_digits: "list_all is_hex (hex_digits k v)"
  by (induction k arbitrary: v) (simp_all add: hex_char_val)

lemma value_hex_digits:
  "foldl (\<lambda>a c. a * 16 + of_nat (hex_val c)) 0 (hex_digits k v)
     = (of_nat (v mod 16 ^ k) :: ObjectId)"
proof (induction k arbitrary: v)
  case 0
  show ?case by simp
next
  case (Suc k)
  have "v mod 16 ^ Suc k = 16 * (v div 16 mod 16 ^ k) + v mod 16"
    by (simp add: mod_mult2_eq)
  then show ?case
    by (simp add: Suc hex_char_val mult.commute)
qed

lemma ObjectId_cast_toHexString: "ObjectId_cast (toHexString w) = Some w"
proof -
  have "unat w < 2 ^ 96"
    using unsigned_less [of w, where 'a = nat] by simp
  then have "unat w mod 16 ^ 24 = unat w"
    by simp
  then show ?thesis
    by (simp add: ObjectId_cast_def toHexString_def length_hex_digits is_hex_hex_digits
          value_hex_digits)
qed

lemma toHexString_not_empty: "toHexString w \<noteq> []"
  using length_hex_digits [of 24 "unat w"] by (auto simp: toHexString_def)

lemma find_appended:
  "\<forall>x \<in> set xs. \<not> P x \<Longrightarrow> P p \<Longrightarrow> find P (xs @ [p]) = Some p"
  by (induction xs) simp_all

lemma find_remove_first:
  "distinct (map oid ps) \<Longrightarrow>
     find (\<lambda>p. oid p = w) (remove_first (\<lambda>p. oid p = w) ps) = None"
proof (induction ps)
  case Nil
  show ?case by simp
next
  case (Cons x ps)
  show ?case
  proof (cases "oid x = w")
    case True
    from Cons.prems have "oid x \<notin> oid ` set ps" by simp
    then have "\<forall>y \<in> set ps. oid y \<noteq> oid x" by (metis image_eqI)
    with True have "\<forall>y \<in> set ps. oid y \<noteq> w" by simp
    then show ?thesis using True by (simp add: find_None_iff)
  next
    case False
    with Cons show ?thesis by simp
  qed
qed

lemma oid_apply_patch: "oid (apply_patch u p) = oid p"
  by (simp add: apply_patch_def)

lemma publishedData_apply_patch: "publishedData (apply_patch u p) = publishedData p"
  by (simp add: apply_patch_def)

lemma map_oid_update_first:
  "map oid (update_first P (apply_patch u) ps) = map oid ps"
  by (induction ps) (simp_all add: oid_apply_patch)

lemma map_publishedData_update_first:
  "map publishedData (update_first P (apply_patch u) ps) = map publishedData ps"
  by (induction ps) (simp_all add: publishedData_apply_patch)

lemma find_update_first:
  "find (\<lambda>p. oid p = w) (update_first (\<lambda>p. oid p = w) (apply_patch u) ps)
     = map_option (apply_patch u) (find (\<lambda>p. oid p = w) ps)"
  by (induction ps) (simp_all add: oid_apply_patch)

lemma is_text_JStr: "is_text x \<Longrightarrow> \<exists>t. x = JStr t \<and> t \<noteq> []"
  by (cases x) simp_all

lemma as_strings_text: "list_all is_text xs \<Longrightarrow> \<exists>ss. as_strings xs = Some ss \<and> xs = map JStr ss"
proof (induction xs)
  case Nil
  show ?case by simp
next
  case (Cons x xs)
  then obtain t ss where "x = JStr t" "as_strings xs = Some ss" "xs = map JStr ss"
    using is_text_JStr [of x] by auto
  then show ?case by simp
qed

lemma is_text_array_JArr:
  "is_text_array x \<Longrightarrow> \<exists>ss. x = JArr (map JStr ss) \<and> as_string_array (Some x) = Some ss"
  by (cases x) (use as_strings_text in auto)

lemma cast_path_string:
  assumes "\<forall>x. v = Some x \<longrightarrow> is_text x"
  shows "cast_path as_string v = Some (Option.bind v (\<lambda>x. as_string (Some x)))"
    and "Option.bind v (\<lambda>x. as_string (Some x)) = None \<longleftrightarrow> v = None"
    and "\<forall>t. Option.bind v (\<lambda>x. as_string (Some x)) = Some t \<longrightarrow> v = Some (JStr t)"
proof -
  have "cast_path as_string v = Some (Option.bind v (\<lambda>x. as_string (Some x)))
      \<and> (Option.bind v (\<lambda>x. as_string (Some x)) = None \<longleftrightarrow> v = None)
      \<and> (\<forall>t. Option.bind v (\<lambda>x. as_string (Some x)) = Some t \<longrightarrow> v = Some (JStr t))"
  proof (cases v)
    case None
    then show ?thesis by simp
  next
    case (Some x)
    with assms obtain t where "x = JStr t" using is_text_JStr by blast
    with Some show ?thesis by simp
  qed
  then show "cast_path as_string v = Some (Option.bind v (\<lambda>x. as_string (Some x)))"
    and "Option.bind v (\<lambda>x. as_string (Some x)) = None \<longleftrightarrow> v = None"
    and "\<forall>t. Option.bind v (\<lambda>x. as_string (Some x)) = Some t \<longrightarrow> v = Some (JStr t)"
    by blast+
qed

lemma cast_path_array:
  assumes "\<forall>x. v = Some x \<longrightarrow> is_text_array x"
  shows "cast_path as_string_array v = Some (Option.bind v (\<lambda>x. as_string_array (Some x)))"
    and "Option.bind v (\<lambda>x. as_string_array (Some x)) = None \<longleftrightarrow> v = None"
    and "\<forall>ts. Option.bind v (\<lambda>x. as_string_array (Some x)) = Some ts
            \<longrightarrow> v = Some (JArr (map JStr ts))"
proof -
  have "cast_path as_string_array v = Some (Option.bind v (\<lambda>x. as_string_array (Some x)))
      \<and> (Option.bind v (\<lambda>x. as_string_array (Some x)) = None \<longleftrightarrow> v = None)
      \<and> (\<forall>ts. Option.bind v (\<lambda>x. as_string_array (Some x)) = Some ts
            \<longrightarrow> v = Some (JArr (map JStr ts)))"
  proof (cases v)
    case None
    then show ?thesis by simp
  next
    case (Some x)
    with assms obtain ss where x: "x = JArr (map JStr ss)" "as_string_array (Some x) = Some ss"
      using is_text_array_JArr by blast
    have 1: "Option.bind v (\<lambda>x. as_string_array (Some x)) = Some ss"
      by (simp only: Some bind.bind_lunit x(2))
    have 2: "cast_path as_string_array v = Some (Some ss)"
      by (simp only: Some cast_path.simps x(2) option.case)
    have 3: "v = Some (JArr (map JStr ss))"
      by (simp only: Some x(1))
    show ?thesis
      unfolding 1 2 by (simp add: 3)
  qed
  then show "cast_path as_string_array v = Some (Option.bind v (\<lambda>x. as_string_array (Some x)))"
    and "Option.bind v (\<lambda>x. as_string_array (Some x)) = None \<longleftrightarrow> v = None"
    and "\<forall>ts. Option.bind v (\<lambda>x. as_string_array (Some x)) = Some ts
            \<longrightarrow> v = Some (JArr (map JStr ts))"
    by blast+
qed

lemma cast_update_valid:
  assumes "validate update_schema b = None"
  shows "\<exists>u. cast_update b = Some u
     \<and> (new_title u = None \<longleftrightarrow> field ''title'' b = None)
     \<and> (\<forall>t. new_title u = Some t \<longrightarrow> field ''title'' b = Some (JStr t))
     \<and> (new_body u = None \<longleftrightarrow> field ''body'' b = None)
     \<and> (\<forall>t. new_body u = Some t \<longrightarrow> field ''body'' b = Some (JStr t))
     \<and> (new_tags u = None \<longleftrightarrow> field ''tags'' b = None)
     \<and> (\<forall>ts. new_tags u = Some ts \<longrightarrow> field ''tags'' b = Some (JArr (map JStr ts)))"
proof -
  from assms obtain kvs where b: "b = JObj kvs"
    and t: "\<forall>x. map_of kvs ''title'' = Some x \<longrightarrow> is_text x"
    and bd: "\<forall>x. map_of kvs ''body'' = Some x \<longrightarrow> is_text x"
    and tg: "\<forall>x. map_of kvs ''tags'' = Some x \<longrightarrow> is_text_array x"
    unfolding validate_update_schema_None by blast
  define r1 where "r1 = Option.bind (map_of kvs ''title'') (\<lambda>x. as_string (Some x))"
  define r2 where "r2 = Option.bind (map_of kvs ''body'') (\<lambda>x. as_string (Some x))"
  define r3 where "r3 = Option.bind (map_of kvs ''tags'') (\<lambda>x. as_string_array (Some x))"
  note r1 = cast_path_string [OF t, folded r1_def]
  note r2 = cast_path_string [OF bd, folded r2_def]
  note r3 = cast_path_array [OF tg, folded r3_def]
  let ?u = "\<lparr>new_title = r1, new_body = r2, new_tags = r3\<rparr>"
  have cu: "cast_update b = Some ?u"
    by (simp add: cast_update_def b r1(1) r2(1) r3(1))
  have sel: "new_title ?u = r1" "new_body ?u = r2" "new_tags ?u = r3"
    by simp_all
  have fld: "field ''title'' b = map_of kvs ''title''" "field ''body'' b = map_of kvs ''body''"
      "field ''tags'' b = map_of kvs ''tags''"
    by (simp_all add: b)
  show ?thesis
  proof (intro exI [of _ ?u] conjI)
    show "cast_update b = Some ?u" by (rule cu)
    show "new_title ?u = None \<longleftrightarrow> field ''title'' b = None"
      unfolding sel fld by (rule r1(2))
    show "\<forall>t. new_title ?u = Some t \<longrightarrow> field ''title'' b = Some (JStr t)"
      unfolding sel fld by (rule r1(3))
    show "new_body ?u = None \<longleftrightarrow> field ''body'' b = None"
      unfolding sel fld by (rule r2(2))
    show "\<forall>t. new_body ?u = Some t \<longrightarrow> field ''body'' b = Some (JStr t)"
      unfolding sel fld by (rule r2(3))
    show "new_tags ?u = None \<longleftrightarrow> field ''tags'' b = None"
      unfolding sel fld by (rule r3(2))
    show "\<forall>ts. new_tags ?u = Some ts \<longrightarrow> field ''tags'' b = Some (JArr (map JStr ts))"
      unfolding sel fld by (rule r3(3))
  qed
qed


section \<open>Create, then read\<close>

lemma new_Post_valid:
  assumes "validate write_schema b = None"
  shows "\<exists>p. new_Post e b = Some p \<and> oid p = fresh_id e \<and> publishedData p = now e
           \<and> field ''title'' b = Some (JStr (title p))
           \<and> field ''body'' b = Some (JStr (body p))
           \<and> field ''tags'' b = Some (JArr (map JStr (tags p)))"
proof -
  from assms obtain kvs x y z where b: "b = JObj kvs"
    and t: "map_of kvs ''title'' = Some x" "is_text x"
    and bd: "map_of kvs ''body'' = Some y" "is_text y"
    and tg: "map_of kvs ''tags'' = Some z" "is_text_array z"
    unfolding validate_write_schema_None by blast
  obtain t' where x: "x = JStr t'" using is_text_JStr [OF t(2)] by blast
  obtain b' where y: "y = JStr b'" using is_text_JStr [OF bd(2)] by blast
  obtain ss where z: "z = JArr (map JStr ss)" "as_string_array (Some z) = Some ss"
    using is_text_array_JArr [OF tg(2)] by blast
  have "new_Post e b =
      Some \<lparr>oid = fresh_id e, title = t', body = b', tags = ss, publishedData = now e\<rparr>"
    using z(2) by (simp add: new_Post_def b t(1) bd(1) tg(1) x y)
  then show ?thesis
    by (simp add: b t(1) bd(1) tg(1) x y z(1))
qed

lemma read_outcome:
  assumes "ObjectId_cast (params_id c) = Some w" and "\<not> unavailable s"
  shows "read c s =
     (case find (\<lambda>p. oid p = w) (docs s) of
        None \<Rightarrow> (Inr (set_status 404 c), logged (FindById (params_id c)) s)
      | Some p \<Rightarrow> (Inr (set_body (PostDoc p) c), logged (FindById (params_id c)) s))"
  using assms by (simp add: read_def Post_findById_def split: option.split)

lemma params_id_new_ctx: "params_id (new_ctx i q b) = i"
  by (simp add: new_ctx_def)

lemma request_body_new_ctx: "request_body (new_ctx i q b) = b"
  by (simp add: new_ctx_def)

lemma set_body_new_ctx:
  "status (set_body v (new_ctx i q b)) = 200"
  "ctx_body (set_body v (new_ctx i q b)) = Some v"
  by (simp_all add: set_body_def new_ctx_def)

lemma set_status_new_ctx:
  "status (set_status n (new_ctx i q b)) = n"
  "ctx_body (set_status n (new_ctx i q b)) = None"
  by (simp_all add: set_status_def new_ctx_def)

text \<open>
  C7: for a create request whose body passes validation, when the generated id is not
  yet in the collection and the store calls succeed, the response is 200 with the
  created post: its \<^verbatim>\<open>title\<close>, \<^verbatim>\<open>body\<close> and \<^verbatim>\<open>tags\<close> are those of the request, its id is the
  generated one and its rendering is not empty, its date is the time of creation; a
  read of that id afterwards answers 200 with the same post.
\<close>

theorem write_then_read:
  assumes "validate write_schema b = None"
    and "fresh_id e \<notin> set (map oid (docs s))"
    and "\<not> unavailable s" and "Suc (length (calls s)) \<notin> set (faults s)"
  shows "\<exists>p. response_status (fst (write_post e (new_ctx i q b) s)) = 200
     \<and> response_body (fst (write_post e (new_ctx i q b) s)) = Some (PostDoc p)
     \<and> field ''title'' b = Some (JStr (title p))
     \<and> field ''body'' b = Some (JStr (body p))
     \<and> field ''tags'' b = Some (JArr (map JStr (tags p)))
     \<and> oid p = fresh_id e \<and> toHexString (oid p) \<noteq> []
     \<and> publishedData p = now e
     \<and> docs (snd (write_post e (new_ctx i q b) s)) = docs s @ [p]
     \<and> response_status
          (fst (read (new_ctx (toHexString (oid p)) q' b')
                  (snd (write_post e (new_ctx i q b) s)))) = 200
     \<and> response_body
          (fst (read (new_ctx (toHexString (oid p)) q' b')
                  (snd (write_post e (new_ctx i q b) s)))) = Some (PostDoc p)"
proof -
  obtain p where p: "new_Post e b = Some p" "oid p = fresh_id e" "publishedData p = now e"
      "field ''title'' b = Some (JStr (title p))"
      "field ''body'' b = Some (JStr (body p))"
      "field ''tags'' b = Some (JArr (map JStr (tags p)))"
    using new_Post_valid [OF assms(1), of e] by blast
  let ?s = "(logged (Save p) s)\<lparr>docs := docs s @ [p]\<rparr>"
  have w: "write_post e (new_ctx i q b) s = (Inr (set_body (PostDoc p) (new_ctx i q b)), ?s)"
    using assms(2,3)
    by (simp add: write_post_def request_body_new_ctx assms(1) p(1,2) Post_save_def)
  have up: "\<not> unavailable ?s"
    using assms(4) by (simp add: unavailable_def logged_def)
  have "oid p \<notin> oid ` set (docs s)"
    using assms(2) p(2) by simp
  then have "\<forall>x \<in> set (docs s). \<not> oid x = oid p"
    by (metis image_eqI)
  then have found: "find (\<lambda>x. oid x = oid p) (docs ?s) = Some p"
    by (simp add: find_appended)
  have r: "read (new_ctx (toHexString (oid p)) q' b') ?s =
      (Inr (set_body (PostDoc p) (new_ctx (toHexString (oid p)) q' b')),
       logged (FindById (toHexString (oid p))) ?s)"
    using read_outcome [of "new_ctx (toHexString (oid p)) q' b'" "oid p" ?s] up found
    by (simp add: params_id_new_ctx ObjectId_cast_toHexString)
  show ?thesis
    by (rule exI [of _ p])
      (simp add: w r set_body_new_ctx p(3-6) toHexString_not_empty, simp add: p(2))
qed

theorem write_then_read_witness:
  "validate write_schema sample_body = None
   \<and> fresh_id sample_env \<notin> set (map oid (docs empty_store))
   \<and> \<not> unavailable empty_store
   \<and> (\<exists>p. response_status (fst (write_post sample_env (new_ctx [] None sample_body) empty_store)) = 200
        \<and> response_body (fst (write_post sample_env (new_ctx [] None sample_body) empty_store))
            = Some (PostDoc p)
        \<and> title p = ''T'' \<and> body p = ''B'' \<and> tags p = [''x'', ''y'']
        \<and> response_body
             (fst (read (new_ctx (toHexString (oid p)) None JNull)
                     (snd (write_post sample_env (new_ctx [] None sample_body) empty_store))))
            = Some (PostDoc p))"
proof -
  have v: "validate write_schema sample_body = None"
    by (simp add: validate_def write_schema_def sample_body_def)
  have f: "fresh_id sample_env \<notin> set (map oid (docs empty_store))"
    "\<not> unavailable empty_store"
    "Suc (length (calls empty_store)) \<notin> set (faults empty_store)"
    by (simp_all add: empty_store_def unavailable_def)
  have fld: "field ''title'' sample_body = Some (JStr ''T'')"
    "field ''body'' sample_body = Some (JStr ''B'')"
    "field ''tags'' sample_body = Some (JArr [JStr ''x'', JStr ''y''])"
    by (simp_all add: sample_body_def)
  have inj: "inj JStr"
    by (simp add: inj_def)
  from write_then_read [OF v f(1) f(2) f(3), of "[]" None None JNull]
  obtain p where p:
    "response_status (fst (write_post sample_env (new_ctx [] None sample_body) empty_store)) = 200"
    "response_body (fst (write_post sample_env (new_ctx [] None sample_body) empty_store))
       = Some (PostDoc p)"
    "field ''title'' sample_body = Some (JStr (title p))"
    "field ''body'' sample_body = Some (JStr (body p))"
    "field ''tags'' sample_body = Some (JArr (map JStr (tags p)))"
    "response_body
       (fst (read (new_ctx (toHexString (oid p)) None JNull)
               (snd (write_post sample_env (new_ctx [] None sample_body) empty_store))))
      = Some (PostDoc p)"
    by blast
  have "map JStr (tags p) = map JStr [''x'', ''y'']"
    using p(5) by (simp add: fld)
  then have "tags p = [''x'', ''y'']"
    by (simp only: inj_map_eq_map [OF inj])
  moreover have "title p = ''T''" "body p = ''B''"
    using p(3,4) by (simp_all add: fld)
  ultimately show ?thesis
    using p(1,2,6) v f(1,2) by blast
qed

section \<open>Removing\<close>

lemma remove_outcome:
  assumes "ObjectId_cast (params_id c) = Some w" and "\<not> unavailable s"
  shows "remove c s =
     (Inr (set_status 204 c),
      (logged (FindByIdAndRemove (params_id c)) s)
        \<lparr>docs := remove_first (\<lambda>p. oid p = w) (docs s)\<rparr>)"
  using assms by (simp add: remove_def Post_findByIdAndRemove_def)

text \<open>
  C6, as stated for every id: the id \<^verbatim>\<open>abc\<close> is not a valid \<^verbatim>\<open>ObjectId\<close>, the query of
  \<^verbatim>\<open>findByIdAndRemove\<close> fails on the cast, and the handler ends with 500, not 204.
\<close>

theorem remove_malformed_id_counterexample:
  "\<not> ObjectId_isValid ''abc''
   \<and> response_status (fst (remove (new_ctx ''abc'' None JNull) empty_store)) = 500
   \<and> response_status (fst (remove (new_ctx ''abc'' None JNull) empty_store)) \<noteq> 204"
  by (simp add: remove_def Post_findByIdAndRemove_def ObjectId_cast_def ObjectId_isValid_def
        new_ctx_def empty_store_def unavailable_def)

text \<open>
  C6, amended: for every id that is a valid \<^verbatim>\<open>ObjectId\<close> (what the id-format guard lets
  through), when the store call succeeds, the remove handler answers 204 with an empty
  body, whether or not a document with that id was there; and in a collection with
  distinct ids, a read of that id after the removal answers 404 with an empty body,
  when its store call succeeds.
\<close>

theorem remove_valid_id:
  assumes "ObjectId_isValid i" and "\<not> unavailable s"
  shows "response_status (fst (remove (new_ctx i q b) s)) = 204
     \<and> response_body (fst (remove (new_ctx i q b) s)) = None
     \<and> (wf_store s \<and> Suc (length (calls s)) \<notin> set (faults s) \<longrightarrow>
           response_status
             (fst (read (new_ctx i q' b') (snd (remove (new_ctx i q b) s)))) = 404
           \<and> response_body
               (fst (read (new_ctx i q' b') (snd (remove (new_ctx i q b) s)))) = None)"
proof -
  obtain w where w: "ObjectId_cast i = Some w"
    using assms(1) ObjectId_cast_Some_iff by blast
  let ?s = "(logged (FindByIdAndRemove i) s)\<lparr>docs := remove_first (\<lambda>p. oid p = w) (docs s)\<rparr>"
  have rm: "remove (new_ctx i q b) s = (Inr (set_status 204 (new_ctx i q b)), ?s)"
    using remove_outcome [of "new_ctx i q b" w s] w assms(2)
    by (simp add: params_id_new_ctx)
  have after: "response_status (fst (read (new_ctx i q' b') ?s)) = 404
      \<and> response_body (fst (read (new_ctx i q' b') ?s)) = None"
    if wf: "wf_store s" and up: "Suc (length (calls s)) \<notin> set (faults s)"
  proof -
    have "\<not> unavailable ?s"
      using up by (simp add: unavailable_def logged_def)
    moreover have "find (\<lambda>p. oid p = w) (docs ?s) = None"
      using wf by (simp add: wf_store_def find_remove_first)
    ultimately have "read (new_ctx i q' b') ?s =
        (Inr (set_status 404 (new_ctx i q' b')), logged (FindById i) ?s)"
      using read_outcome [of "new_ctx i q' b'" w ?s] w
      by (simp add: params_id_new_ctx)
    then show ?thesis
      by (simp add: set_status_new_ctx)
  qed
  show ?thesis
    using after by (simp add: rm set_status_new_ctx)
qed

lemma ObjectId_cast_sample: "ObjectId_cast ''000000000000000000005f1e'' = Some 0x5f1e"
  by (simp add: ObjectId_cast_def is_hex_def hex_val_def)

lemma ObjectId_isValid_sample: "ObjectId_isValid ''000000000000000000005f1e''"
  by (simp add: ObjectId_isValid_def is_hex_def)

theorem remove_valid_id_witness:
  "ObjectId_isValid ''000000000000000000005f1e'' \<and> \<not> unavailable sample_store
   \<and> wf_store sample_store
   \<and> find (\<lambda>p. oid p = 0x5f1e) (docs sample_store) = Some sample_post
   \<and> response_status
        (fst (remove (new_ctx ''000000000000000000005f1e'' None JNull) sample_store)) = 204
   \<and> response_status
        (fst (read (new_ctx ''000000000000000000005f1e'' None JNull)
                (snd (remove (new_ctx ''000000000000000000005f1e'' None JNull)
                        sample_store)))) = 404
   \<and> \<not> unavailable empty_store
   \<and> response_status
        (fst (remove (new_ctx ''000000000000000000005f1e'' None JNull) empty_store)) = 204"
  using remove_valid_id [of "''000000000000000000005f1e''" sample_store None JNull None JNull]
    remove_valid_id [of "''000000000000000000005f1e''" empty_store None JNull None JNull]
  by (simp add: ObjectId_isValid_sample unavailable_def wf_store_def sample_store_def
        empty_store_def sample_post_def)

section \<open>Updating\<close>

lemma update_outcome:
  assumes "ObjectId_cast (params_id c) = Some w" and "\<not> unavailable s"
    and "validate update_schema (request_body c) = None"
    and "cast_update (request_body c) = Some u"
  shows "update c s =
     (case find (\<lambda>p. oid p = w) (docs s) of
        None \<Rightarrow> Inr (set_status 404 c)
      | Some p \<Rightarrow> Inr (set_body (PostDoc (apply_patch u p)) c),
      (logged (FindByIdAndUpdate (params_id c) (request_body c)) s)
        \<lparr>docs := update_first (\<lambda>p. oid p = w) (apply_patch u) (docs s)\<rparr>)"
  using assms by (simp add: update_def Post_findByIdAndUpdate_def split: option.split)

text \<open>
  C5: for an update of an existing post with a body that passes validation, when the
  store call succeeds, the response is 200 with the post after the update, which is the
  stored one; each of \<^verbatim>\<open>title\<close>, \<^verbatim>\<open>body\<close> and \<^verbatim>\<open>tags\<close> that the input does not have keeps its
  stored value and each that it has takes the input value; the id and the date of the
  post, and of every document of the collection, are unchanged.
\<close>

theorem update_keeps_absent_fields:
  assumes "validate update_schema b = None"
    and "ObjectId_cast i = Some w"
    and "find (\<lambda>p. oid p = w) (docs s) = Some p0"
    and "\<not> unavailable s"
  shows "\<exists>p1. response_status (fst (update (new_ctx i q b) s)) = 200
     \<and> response_body (fst (update (new_ctx i q b) s)) = Some (PostDoc p1)
     \<and> find (\<lambda>p. oid p = w) (docs (snd (update (new_ctx i q b) s))) = Some p1
     \<and> oid p1 = oid p0 \<and> publishedData p1 = publishedData p0
     \<and> (field ''title'' b = None \<longrightarrow> title p1 = title p0)
     \<and> (field ''body'' b = None \<longrightarrow> body p1 = body p0)
     \<and> (field ''tags'' b = None \<longrightarrow> tags p1 = tags p0)
     \<and> (\<forall>t. field ''title'' b = Some (JStr t) \<longrightarrow> title p1 = t)
     \<and> (\<forall>t. field ''body'' b = Some (JStr t) \<longrightarrow> body p1 = t)
     \<and> (\<forall>ts. field ''tags'' b = Some (JArr (map JStr ts)) \<longrightarrow> tags p1 = ts)
     \<and> map oid (docs (snd (update (new_ctx i q b) s))) = map oid (docs s)
     \<and> map publishedData (docs (snd (update (new_ctx i q b) s)))
         = map publishedData (docs s)"
proof -
  from cast_update_valid [OF assms(1)] obtain u where all:
    "cast_update b = Some u
     \<and> (new_title u = None \<longleftrightarrow> field ''title'' b = None)
     \<and> (\<forall>t. new_title u = Some t \<longrightarrow> field ''title'' b = Some (JStr t))
     \<and> (new_body u = None \<longleftrightarrow> field ''body'' b = None)
     \<and> (\<forall>t. new_body u = Some t \<longrightarrow> field ''body'' b = Some (JStr t))
     \<and> (new_tags u = None \<longleftrightarrow> field ''tags'' b = None)
     \<and> (\<forall>ts. new_tags u = Some ts \<longrightarrow> field ''tags'' b = Some (JArr (map JStr ts)))"
    by (rule exE)
  note u = all [THEN conjunct1]
  note c1 = all [THEN conjunct2]
  note c2 = c1 [THEN conjunct2]
  note c3 = c2 [THEN conjunct2]
  note c4 = c3 [THEN conjunct2]
  note c5 = c4 [THEN conjunct2]
  note t = c1 [THEN conjunct1] c2 [THEN conjunct1]
  note bd = c3 [THEN conjunct1] c4 [THEN conjunct1]
  note tg = c5 [THEN conjunct1] c5 [THEN conjunct2]
  let ?p = "apply_patch u p0"
  let ?s = "(logged (FindByIdAndUpdate i b) s)
              \<lparr>docs := update_first (\<lambda>p. oid p = w) (apply_patch u) (docs s)\<rparr>"
  have out: "update (new_ctx i q b) s = (Inr (set_body (PostDoc ?p) (new_ctx i q b)), ?s)"
    using update_outcome [of "new_ctx i q b" w s u] assms u
    by (simp add: params_id_new_ctx request_body_new_ctx)
  have inj: "inj JStr"
    by (simp add: inj_def)
  have title_kept: "field ''title'' b = None \<longrightarrow> title ?p = title p0"
    using t(1) by (cases "new_title u") (auto simp: apply_patch_def)
  have body_kept: "field ''body'' b = None \<longrightarrow> body ?p = body p0"
    using bd(1) by (cases "new_body u") (auto simp: apply_patch_def)
  have tags_kept: "field ''tags'' b = None \<longrightarrow> tags ?p = tags p0"
    using tg(1) by (cases "new_tags u") (auto simp: apply_patch_def)
  have title_set: "\<forall>x. field ''title'' b = Some (JStr x) \<longrightarrow> title ?p = x"
  proof (intro allI impI)
    fix x assume x: "field ''title'' b = Some (JStr x)"
    with t(1) obtain y where y: "new_title u = Some y" by (cases "new_title u") auto
    with t(2) x have "y = x" by simp
    with y show "title ?p = x" by (simp add: apply_patch_def)
  qed
  have body_set: "\<forall>x. field ''body'' b = Some (JStr x) \<longrightarrow> body ?p = x"
  proof (intro allI impI)
    fix x assume x: "field ''body'' b = Some (JStr x)"
    with bd(1) obtain y where y: "new_body u = Some y" by (cases "new_body u") auto
    with bd(2) x have "y = x" by simp
    with y show "body ?p = x" by (simp add: apply_patch_def)
  qed
  have tags_set: "\<forall>xs. field ''tags'' b = Some (JArr (map JStr xs)) \<longrightarrow> tags ?p = xs"
  proof (intro allI impI)
    fix xs assume x: "field ''tags'' b = Some (JArr (map JStr xs))"
    with tg(1) obtain ys where y: "new_tags u = Some ys" by (cases "new_tags u") auto
    with tg(2) x have "map JStr ys = map JStr xs" by simp
    then have "ys = xs" by (simp only: inj_map_eq_map [OF inj])
    with y show "tags ?p = xs" by (simp add: apply_patch_def)
  qed
  have stored: "find (\<lambda>p. oid p = w) (docs ?s) = Some ?p"
    by (simp add: find_update_first assms(3))
  show ?thesis
    apply (rule exI [of _ ?p])
    apply (simp only: out fst_conv snd_conv stored)
    apply (intro conjI)
                apply (simp add: set_body_new_ctx)
               apply (simp add: set_body_new_ctx)
              apply (rule refl)
             apply (rule oid_apply_patch)
            apply (rule publishedData_apply_patch)
           apply (rule title_kept)
          apply (rule body_kept)
         apply (rule tags_kept)
        apply (rule title_set)
       apply (rule body_set)
      apply (rule tags_set)
     apply (simp add: map_oid_update_first)
    apply (simp add: map_publishedData_update_first)
    done
qed

theorem update_keeps_absent_fields_witness:
  "validate update_schema (JObj [(''title'', JStr ''New'')]) = None
   \<and> ObjectId_cast ''000000000000000000005f1e'' = Some 0x5f1e
   \<and> find (\<lambda>p. oid p = 0x5f1e) (docs sample_store) = Some sample_post
   \<and> \<not> unavailable sample_store
   \<and> (\<exists>p1. response_status
               (fst (update (new_ctx ''000000000000000000005f1e'' None
                               (JObj [(''title'', JStr ''New'')])) sample_store)) = 200
          \<and> response_body
               (fst (update (new_ctx ''000000000000000000005f1e'' None
                               (JObj [(''title'', JStr ''New'')])) sample_store))
              = Some (PostDoc p1)
          \<and> title p1 = ''New'' \<and> body p1 = ''B'' \<and> tags p1 = [''x'', ''y'']
          \<and> oid p1 = 0x5f1e \<and> publishedData p1 = 1000)"
proof -
  have v: "validate update_schema (JObj [(''title'', JStr ''New'')]) = None"
    by (simp add: validate_def update_schema_def)
  have f: "find (\<lambda>p. oid p = 0x5f1e) (docs sample_store) = Some sample_post"
    by (simp add: sample_store_def sample_post_def)
  have up: "\<not> unavailable sample_store"
    by (simp add: unavailable_def sample_store_def)
  let ?r = "update (new_ctx ''000000000000000000005f1e'' None (JObj [(''title'', JStr ''New'')]))
              sample_store"
  from update_keeps_absent_fields [OF v ObjectId_cast_sample f up, of None]
  obtain p1 where all:
    "response_status (fst ?r) = 200
     \<and> response_body (fst ?r) = Some (PostDoc p1)
     \<and> find (\<lambda>p. oid p = 0x5f1e) (docs (snd ?r)) = Some p1
     \<and> oid p1 = oid sample_post \<and> publishedData p1 = publishedData sample_post
     \<and> (field ''title'' (JObj [(''title'', JStr ''New'')]) = None \<longrightarrow> title p1 = title sample_post)
     \<and> (field ''body'' (JObj [(''title'', JStr ''New'')]) = None \<longrightarrow> body p1 = body sample_post)
     \<and> (field ''tags'' (JObj [(''title'', JStr ''New'')]) = None \<longrightarrow> tags p1 = tags sample_post)
     \<and> (\<forall>t. field ''title'' (JObj [(''title'', JStr ''New'')]) = Some (JStr t) \<longrightarrow> title p1 = t)
     \<and> (\<forall>t. field ''body'' (JObj [(''title'', JStr ''New'')]) = Some (JStr t) \<longrightarrow> body p1 = t)
     \<and> (\<forall>ts. field ''tags'' (JObj [(''title'', JStr ''New'')]) = Some (JArr (map JStr ts))
            \<longrightarrow> tags p1 = ts)
     \<and> map oid (docs (snd ?r)) = map oid (docs sample_store)
     \<and> map publishedData (docs (snd ?r)) = map publishedData (docs sample_store)"
    by (rule exE)
  note d1 = all [THEN conjunct2]
  note d2 = d1 [THEN conjunct2]
  note d3 = d2 [THEN conjunct2]
  note d4 = d3 [THEN conjunct2]
  note d5 = d4 [THEN conjunct2]
  note d6 = d5 [THEN conjunct2]
  note d7 = d6 [THEN conjunct2]
  note d8 = d7 [THEN conjunct2]
  note p1 = all [THEN conjunct1] d1 [THEN conjunct1] d3 [THEN conjunct1] d4 [THEN conjunct1]
    d6 [THEN conjunct1] d7 [THEN conjunct1] d8 [THEN conjunct1]
  have "title p1 = ''New''"
    using p1(7) by simp
  moreover have "body p1 = ''B''"
    using p1(5) by (simp add: sample_post_def)
  moreover have "tags p1 = [''x'', ''y'']"
    using p1(6) by (simp add: sample_post_def)
  moreover have "oid p1 = 0x5f1e" "publishedData p1 = 1000"
    using p1(3,4) by (simp_all add: sample_post_def)
  ultimately have fields: "title p1 = ''New''" "body p1 = ''B''" "tags p1 = [''x'', ''y'']"
    "oid p1 = 0x5f1e" "publishedData p1 = 1000"
    by blast+
  from p1(1,2) fields have "\<exists>p1. response_status (fst ?r) = 200
      \<and> response_body (fst ?r) = Some (PostDoc p1)
      \<and> title p1 = ''New'' \<and> body p1 = ''B'' \<and> tags p1 = [''x'', ''y'']
      \<and> oid p1 = 0x5f1e \<and> publishedData p1 = 1000"
    by (intro exI [of _ p1] conjI)
  with v f up ObjectId_cast_sample show ?thesis
    by (intro conjI)
qed

section \<open>The handlers keep the ids of the collection distinct\<close>

lemma set_remove_first: "set (remove_first P ps) \<subseteq> set ps"
  by (induction ps) auto

lemma distinct_remove_first:
  "distinct (map f ps) \<Longrightarrow> distinct (map f (remove_first P ps))"
proof (induction ps)
  case Nil
  show ?case by simp
next
  case (Cons x ps)
  have "f ` set (remove_first P ps) \<subseteq> f ` set ps"
    using set_remove_first [of P ps] by blast
  with Cons show ?case by auto
qed

lemma wf_store_write_post: "wf_store s \<Longrightarrow> wf_store (snd (write_post e c s))"
  by (auto simp: wf_store_def write_post_def Post_save_def logged_def
        split: option.splits)

lemma wf_store_list: "wf_store s \<Longrightarrow> wf_store (snd (list c s))"
  by (auto simp: wf_store_def list_def Let_def Post_find_def Post_countDocuments_def
        logged_def split: option.splits jsnum.splits)

lemma wf_store_read: "wf_store s \<Longrightarrow> wf_store (snd (read c s))"
  by (auto simp: wf_store_def read_def Post_findById_def logged_def split: option.splits)

lemma wf_store_remove: "wf_store s \<Longrightarrow> wf_store (snd (remove c s))"
  by (auto simp: wf_store_def remove_def Post_findByIdAndRemove_def logged_def
        distinct_remove_first split: option.splits)

lemma wf_store_update: "wf_store s \<Longrightarrow> wf_store (snd (update c s))"
  by (auto simp: wf_store_def update_def Post_findByIdAndUpdate_def logged_def
        map_oid_update_first split: option.splits)

end
